theory Spec2Isabelle
  imports Complex_Main "HOL-Library.Log_Nat"
begin

section \<open>Python values\<close>

text \<open>
  The configuration classes of \<^verbatim>\<open>aligner/config.py\<close> store plain Python values in
  instance attributes and in one dictionary. The values modelled are \<^verbatim>\<open>None\<close>,
  booleans, unbounded integers, floats, strings and lists of such values.

  A float is an IEEE binary64 value: \<open>Fin x\<close> is the finite float of rational value
  \<open>x\<close> (with \<open>Fin 0\<close> the positive zero), \<open>NegZero\<close> is \<^verbatim>\<open>-0.0\<close>, and the two
  infinities and the NaN are constructors of their own.
\<close>

datatype pyfloat = Fin rat | NegZero | PosInf | NegInf | NaN

datatype pyval =
    PyNone
  | PyBool bool
  | PyInt int
  | PyFloat pyfloat
  | PyStr string
  | PyList "pyval list"

datatype error =
    AttributeError
  | TypeError
  | ZeroDivisionError
  | OverflowError
  | ValueError
  | OSError

definition ebind :: "'e + 'a \<Rightarrow> ('a \<Rightarrow> 'e + 'b) \<Rightarrow> 'e + 'b" where
  "ebind m f = (case m of Inl e \<Rightarrow> Inl e | Inr x \<Rightarrow> f x)"

subsection \<open>Rounding to binary64\<close>

definition pow2 :: "int \<Rightarrow> rat" where
  "pow2 e = (if 0 \<le> e then 2 ^ nat e else 1 / 2 ^ nat (- e))"

text \<open>\<open>ilog2 x\<close> is the exponent \<open>e\<close> with \<open>2^e \<le> x < 2^(e+1)\<close>, for \<open>x > 0\<close>.\<close>

definition ilog2 :: "rat \<Rightarrow> int" where
  "ilog2 x =
     (let (a, b) = quotient_of x; e = bitlen a - bitlen b
      in if pow2 e \<le> x then e else e - 1)"

definition round_half_even :: "rat \<Rightarrow> int" where
  "round_half_even y =
     (let f = \<lfloor>y\<rfloor>; r = y - of_int f
      in if r < 1 / 2 then f
         else if 1 / 2 < r then f + 1
         else if even f then f else f + 1)"

text \<open>
  \<open>fl x\<close> is the binary64 float nearest to the rational \<open>x\<close>, ties to even: 53
  significant bits, the exponent of the unit in the last place no smaller than
  \<open>-1074\<close> (gradual underflow), and an infinity once the rounded value reaches
  \<open>2^1024\<close>. A nonzero \<open>x\<close> that rounds to zero keeps its sign.
\<close>

definition fl :: "rat \<Rightarrow> pyfloat" where
  "fl x =
     (if x = 0 then Fin 0
      else
        let a = \<bar>x\<bar>;
            e = max (ilog2 a) (- 1022);
            u = pow2 (e - 52);
            y = of_int (round_half_even (a / u)) * u
        in if pow2 1024 \<le> y then (if 0 < x then PosInf else NegInf)
           else if y = 0 then (if 0 < x then Fin 0 else NegZero)
           else Fin (sgn x * y))"

subsection \<open>Truth value\<close>

text \<open>Python's \<^verbatim>\<open>bool(v)\<close>, which an \<^verbatim>\<open>if\<close> applies to its condition.\<close>

fun py_truthy :: "pyval \<Rightarrow> bool" where
  "py_truthy PyNone = False"
| "py_truthy (PyBool b) = b"
| "py_truthy (PyInt n) = (n \<noteq> 0)"
| "py_truthy (PyFloat f) = (f \<noteq> Fin 0 \<and> f \<noteq> NegZero)"
| "py_truthy (PyStr s) = (s \<noteq> [])"
| "py_truthy (PyList xs) = (xs \<noteq> [])"

section \<open>Dictionaries and keyword arguments\<close>

text \<open>
  A Python \<^verbatim>\<open>dict\<close> with string keys is an association list in insertion order,
  its keys distinct. \<open>dict_set\<close> is \<^verbatim>\<open>d[k] = v\<close>: an existing key keeps its position,
  a new key goes to the end. \<open>dict_update\<close> is \<^verbatim>\<open>d.update(other)\<close>.
\<close>

type_synonym pydict = "(string \<times> pyval) list"

fun dict_set :: "pydict \<Rightarrow> string \<Rightarrow> pyval \<Rightarrow> pydict" where
  "dict_set [] k v = [(k, v)]"
| "dict_set ((k', v') # d) k v =
     (if k' = k then (k, v) # d else (k', v') # dict_set d k v)"

fun dict_update :: "pydict \<Rightarrow> pydict \<Rightarrow> pydict" where
  "dict_update d [] = d"
| "dict_update d ((k, v) # other) = dict_update (dict_set d k v) other"

definition dict_get :: "pydict \<Rightarrow> string \<Rightarrow> pyval \<Rightarrow> pyval" where
  "dict_get d k dflt = (case map_of d k of None \<Rightarrow> dflt | Some v \<Rightarrow> v)"

definition has_key :: "pydict \<Rightarrow> string \<Rightarrow> bool" where
  "has_key d k = (map_of d k \<noteq> None)"

definition dict_remove :: "pydict \<Rightarrow> string \<Rightarrow> pydict" where
  "dict_remove d k = filter (\<lambda>kv. fst kv \<noteq> k) d"

section \<open>Instances and attribute assignment\<close>

text \<open>
  An instance is its attribute dictionary. \<^verbatim>\<open>setattr(self, k, v)\<close> stores into it,
  unless the class has a data descriptor of that name: a property without a setter
  (the argument \<open>props\<close>) and \<^verbatim>\<open>__weakref__\<close> refuse with an AttributeError,
  \<^verbatim>\<open>__class__\<close> and \<^verbatim>\<open>__dict__\<close> refuse every value modelled here with a TypeError.
\<close>

type_synonym attrs = "string \<rightharpoonup> pyval"

definition setattr :: "string list \<Rightarrow> attrs \<Rightarrow> string \<Rightarrow> pyval \<Rightarrow> error + attrs" where
  "setattr props a k v =
     (if k \<in> set props \<or> k = ''__weakref__'' then Inl AttributeError
      else if k = ''__class__'' \<or> k = ''__dict__'' then Inl TypeError
      else Inr (a(k \<mapsto> v)))"

text \<open>The loop \<^verbatim>\<open>for k, v in kwargs.items(): setattr(self, k, v)\<close>.\<close>

fun setattr_all :: "string list \<Rightarrow> pydict \<Rightarrow> attrs \<Rightarrow> error + attrs" where
  "setattr_all props [] a = Inr a"
| "setattr_all props ((k, v) # kvs) a =
     (case setattr props a k v of
        Inl e \<Rightarrow> Inl e
      | Inr a' \<Rightarrow> setattr_all props kvs a')"

definition getattr :: "attrs \<Rightarrow> string \<Rightarrow> error + pyval" where
  "getattr a k = (case a k of None \<Rightarrow> Inl AttributeError | Some v \<Rightarrow> Inr v)"

section \<open>Training-stage configurations\<close>

definition align_often_schedule :: "int list" where
  "align_often_schedule = [1, 5, 10, 15, 20, 25, 30, 35, 38]"

definition default_schedule :: "int list" where
  "default_schedule =
     [1, 2, 3, 4, 5, 6, 7, 8, 9, 10, 12, 14, 16, 18, 20, 23, 26, 29, 32, 35, 38]"

definition scale_opts_default :: pyval where
  "scale_opts_default =
     PyList [PyStr ''--transition-scale=1.0'',
             PyStr ''--acoustic-scale=0.1'',
             PyStr ''--self-loop-scale=0.1'']"

definition splice_opts_default :: pyval where
  "splice_opts_default = PyList [PyStr ''--left-context=3'', PyStr ''--right-context=3'']"

text \<open>The properties of \<^verbatim>\<open>MonophoneConfig\<close>, inherited by its subclasses.\<close>

definition MonophoneConfig_properties :: "string list" where
  "MonophoneConfig_properties = [''max_iter_inc'', ''inc_gauss_count'']"

text \<open>
  \<^verbatim>\<open>MonophoneConfig(**kwargs)\<close>. A keyword named \<^verbatim>\<open>self\<close> collides with the first
  parameter of \<^verbatim>\<open>__init__\<close> and the call raises a TypeError.
\<close>

definition MonophoneConfig :: "pydict \<Rightarrow> error + attrs" where
  "MonophoneConfig kwargs =
     (if has_key kwargs ''self'' then Inl TypeError
      else setattr_all MonophoneConfig_properties kwargs
        [''num_iters'' \<mapsto> PyInt 40,
         ''scale_opts'' \<mapsto> scale_opts_default,
         ''beam'' \<mapsto> PyInt 10,
         ''retry_beam'' \<mapsto> PyInt 40,
         ''max_gauss_count'' \<mapsto> PyInt 1000,
         ''boost_silence'' \<mapsto> PyFloat (fl 1),
         ''realign_iters'' \<mapsto>
            (if py_truthy (dict_get kwargs ''align_often'' (PyBool False))
             then PyList (map PyInt
                    [1, 2, 3, 4, 5, 6, 7, 8, 9, 10, 12, 14,
                     16, 18, 20, 23, 26, 29, 32, 35, 38])
             else PyList (map PyInt [1, 5, 10, 15, 20, 25, 30, 35, 38])),
         ''stage'' \<mapsto> PyInt (- 4),
         ''power'' \<mapsto> PyFloat (fl (25 / 100)),
         ''do_fmllr'' \<mapsto> PyBool False,
         ''do_lda_mllt'' \<mapsto> PyBool False])"

definition TriphoneConfig :: "pydict \<Rightarrow> error + attrs" where
  "TriphoneConfig kwargs =
     (if has_key kwargs ''self'' then Inl TypeError
      else
        let defaults = dict_update
              [(''num_iters'', PyInt 35),
               (''initial_gauss_count'', PyInt 3100),
               (''max_gauss_count'', PyInt 50000),
               (''cluster_threshold'', PyInt 100),
               (''do_lda_mllt'', PyBool False)] kwargs
        in MonophoneConfig defaults)"

text \<open>
  \<^verbatim>\<open>TriphoneFmllrConfig(align_often=True, **kwargs)\<close>, called with the keyword
  arguments \<open>args\<close>: the parameter \<^verbatim>\<open>align_often\<close> takes the keyword of that name
  out of \<open>args\<close> (or its default), the rest is \<^verbatim>\<open>kwargs\<close>. The body never reads
  \<^verbatim>\<open>align_often\<close>.
\<close>

definition TriphoneFmllrConfig :: "pydict \<Rightarrow> error + attrs" where
  "TriphoneFmllrConfig args =
     (if has_key args ''self'' then Inl TypeError
      else
        let align_often = dict_get args ''align_often'' (PyBool True);
            kwargs = dict_remove args ''align_often'';
            defaults = dict_update
              [(''do_fmllr'', PyBool True),
               (''do_lda_mllt'', PyBool False),
               (''fmllr_update_type'', PyStr ''full''),
               (''fmllr_iters'', PyList (map PyInt [2, 4, 6, 12])),
               (''fmllr_power'', PyFloat (fl (2 / 10))),
               (''silence_weight'', PyFloat (fl 0))] kwargs
        in TriphoneConfig defaults)"

subsection \<open>Arithmetic on Python numbers\<close>

text \<open>
  \<^verbatim>\<open>int(f)\<close> on a float truncates toward zero; it raises an OverflowError on an
  infinity and a ValueError on a NaN.
\<close>

fun float_to_int :: "pyfloat \<Rightarrow> error + int" where
  "float_to_int (Fin x) = Inr (if 0 \<le> x then \<lfloor>x\<rfloor> else \<lceil>x\<rceil>)"
| "float_to_int NegZero = Inr 0"
| "float_to_int PosInf = Inl OverflowError"
| "float_to_int NegInf = Inl OverflowError"
| "float_to_int NaN = Inl ValueError"

text \<open>
  The conversion of an integer operand to a float is correctly rounded and raises an
  OverflowError when the integer is too large for a float.
\<close>

definition float_of_int :: "int \<Rightarrow> error + pyfloat" where
  "float_of_int n =
     (case fl (of_int n) of
        PosInf \<Rightarrow> Inl OverflowError
      | NegInf \<Rightarrow> Inl OverflowError
      | f \<Rightarrow> Inr f)"

fun float_value :: "pyfloat \<Rightarrow> rat" where
  "float_value (Fin x) = x"
| "float_value _ = 0"

fun float_negative :: "pyfloat \<Rightarrow> bool" where
  "float_negative (Fin x) = (x < 0)"
| "float_negative NegZero = True"
| "float_negative NegInf = True"
| "float_negative _ = False"

fun float_is_inf :: "pyfloat \<Rightarrow> bool" where
  "float_is_inf PosInf = True"
| "float_is_inf NegInf = True"
| "float_is_inf _ = False"

definition float_is_zero :: "pyfloat \<Rightarrow> bool" where
  "float_is_zero f = (f = Fin 0 \<or> f = NegZero)"

text \<open>IEEE subtraction and division of binary64 values, rounding to nearest.\<close>

definition float_sub :: "pyfloat \<Rightarrow> pyfloat \<Rightarrow> pyfloat" where
  "float_sub x y =
     (if x = NaN \<or> y = NaN then NaN
      else if float_is_inf x then
        (if y = x then NaN else x)
      else if float_is_inf y then
        (if y = PosInf then NegInf else PosInf)
      else if x = NegZero \<and> y = Fin 0 then NegZero
      else
        let r = float_value x - float_value y
        in if r = 0 then Fin 0 else fl r)"

text \<open>\<open>float_div x y\<close> for a divisor \<open>y\<close> that is not a zero.\<close>

definition float_div :: "pyfloat \<Rightarrow> pyfloat \<Rightarrow> pyfloat" where
  "float_div x y =
     (if x = NaN \<or> y = NaN then NaN
      else if float_is_inf x then
        (if float_is_inf y then NaN
         else if float_negative x \<noteq> float_negative y then NegInf else PosInf)
      else if float_is_inf y \<or> float_is_zero x then
        (if float_negative x \<noteq> float_negative y then NegZero else Fin 0)
      else fl (float_value x / float_value y))"

text \<open>The numeric operands: a boolean is the integer 0 or 1.\<close>

datatype pynum = NInt int | NFloat pyfloat

fun as_num :: "pyval \<Rightarrow> pynum option" where
  "as_num (PyBool b) = Some (NInt (if b then 1 else 0))"
| "as_num (PyInt n) = Some (NInt n)"
| "as_num (PyFloat f) = Some (NFloat f)"
| "as_num _ = None"

fun to_float :: "pynum \<Rightarrow> error + pyfloat" where
  "to_float (NInt n) = float_of_int n"
| "to_float (NFloat f) = Inr f"

text \<open>
  \<^verbatim>\<open>a - b\<close>: exact on two integers; with a float operand, the other operand is
  converted and the floats are subtracted; a TypeError on any other operand.
\<close>

definition py_sub :: "pyval \<Rightarrow> pyval \<Rightarrow> error + pyval" where
  "py_sub a b =
     (case (as_num a, as_num b) of
        (Some (NInt x), Some (NInt y)) \<Rightarrow> Inr (PyInt (x - y))
      | (Some x, Some y) \<Rightarrow>
          ebind (to_float x) (\<lambda>fx. ebind (to_float y) (\<lambda>fy.
            Inr (PyFloat (float_sub fx fy))))
      | _ \<Rightarrow> Inl TypeError)"

text \<open>
  \<^verbatim>\<open>a / b\<close>, true division, whose result is always a float. On two integers it is
  the correctly rounded quotient, a ZeroDivisionError on a zero divisor and an
  OverflowError when the quotient is too large for a float; a zero dividend gives a
  zero signed by the divisor. With a float operand, the other operand is converted
  first, then a zero divisor raises.
\<close>

definition py_truediv :: "pyval \<Rightarrow> pyval \<Rightarrow> error + pyfloat" where
  "py_truediv a b =
     (case (as_num a, as_num b) of
        (Some (NInt x), Some (NInt y)) \<Rightarrow>
          (if y = 0 then Inl ZeroDivisionError
           else if x = 0 then Inr (if y < 0 then NegZero else Fin 0)
           else (case fl (of_int x / of_int y) of
                   PosInf \<Rightarrow> Inl OverflowError
                 | NegInf \<Rightarrow> Inl OverflowError
                 | f \<Rightarrow> Inr f))
      | (Some x, Some y) \<Rightarrow>
          ebind (to_float x) (\<lambda>fx. ebind (to_float y) (\<lambda>fy.
            if float_is_zero fy then Inl ZeroDivisionError
            else Inr (float_div fx fy)))
      | _ \<Rightarrow> Inl TypeError)"

subsection \<open>Derived properties of the monophone family\<close>

text \<open>\<^verbatim>\<open>return self.num_iters - 10\<close>\<close>

definition MonophoneConfig_max_iter_inc :: "attrs \<Rightarrow> error + pyval" where
  "MonophoneConfig_max_iter_inc self =
     ebind (getattr self ''num_iters'') (\<lambda>n. py_sub n (PyInt 10))"

text \<open>
  \<^verbatim>\<open>return int((self.max_gauss_count - self.initial_gauss_count) / self.max_iter_inc)\<close>,
  evaluated left to right.
\<close>

definition MonophoneConfig_inc_gauss_count :: "attrs \<Rightarrow> error + pyval" where
  "MonophoneConfig_inc_gauss_count self =
     ebind (getattr self ''max_gauss_count'') (\<lambda>mx.
     ebind (getattr self ''initial_gauss_count'') (\<lambda>ini.
     ebind (py_sub mx ini) (\<lambda>d.
     ebind (MonophoneConfig_max_iter_inc self) (\<lambda>m.
     ebind (py_truediv d m) (\<lambda>q.
     ebind (float_to_int q) (\<lambda>n. Inr (PyInt n)))))))"

section \<open>Independent stage configurations\<close>

definition LdaMlltConfig_properties :: "string list" where
  "LdaMlltConfig_properties = [''max_iter_inc'', ''inc_gauss_count'']"

definition LdaMlltConfig :: "pydict \<Rightarrow> error + attrs" where
  "LdaMlltConfig kwargs =
     (if has_key kwargs ''self'' then Inl TypeError
      else setattr_all LdaMlltConfig_properties kwargs
        [''num_iters'' \<mapsto> PyInt 13,
         ''do_fmllr'' \<mapsto> PyBool False,
         ''do_lda_mllt'' \<mapsto> PyBool True,
         ''scale_opts'' \<mapsto> scale_opts_default,
         ''num_gauss'' \<mapsto> PyInt 5000,
         ''beam'' \<mapsto> PyInt 10,
         ''retry_beam'' \<mapsto> PyInt 40,
         ''initial_gauss_count'' \<mapsto> PyInt 5000,
         ''cluster_threshold'' \<mapsto> PyInt (- 1),
         ''max_gauss_count'' \<mapsto> PyInt 10000,
         ''boost_silence'' \<mapsto> PyFloat (fl 1),
         ''realign_iters'' \<mapsto> PyList (map PyInt [1, 2, 3, 4, 5, 6, 7, 8, 9, 10, 11, 12, 13]),
         ''stage'' \<mapsto> PyInt (- 5),
         ''power'' \<mapsto> PyFloat (fl (25 / 100)),
         ''dim'' \<mapsto> PyInt 40,
         ''careful'' \<mapsto> PyBool False,
         ''randprune'' \<mapsto> PyFloat (fl 4),
         ''splice_opts'' \<mapsto> splice_opts_default,
         ''cluster_thresh'' \<mapsto> PyInt (- 1),
         ''norm_vars'' \<mapsto> PyBool False])"

text \<open>\<^verbatim>\<open>return self.num_iters\<close>\<close>

definition LdaMlltConfig_max_iter_inc :: "attrs \<Rightarrow> error + pyval" where
  "LdaMlltConfig_max_iter_inc self = getattr self ''num_iters''"

definition LdaMlltConfig_inc_gauss_count :: "attrs \<Rightarrow> error + pyval" where
  "LdaMlltConfig_inc_gauss_count self =
     ebind (getattr self ''max_gauss_count'') (\<lambda>mx.
     ebind (getattr self ''initial_gauss_count'') (\<lambda>ini.
     ebind (py_sub mx ini) (\<lambda>d.
     ebind (LdaMlltConfig_max_iter_inc self) (\<lambda>m.
     ebind (py_truediv d m) (\<lambda>q.
     ebind (float_to_int q) (\<lambda>n. Inr (PyInt n)))))))"

text \<open>
  The three classes below define no property, and their constructors take
  \<^verbatim>\<open>**kwargs\<close> without reading it.
\<close>

definition DiagUbmConfig_properties :: "string list" where
  "DiagUbmConfig_properties = []"

definition DiagUbmConfig :: "pydict \<Rightarrow> error + attrs" where
  "DiagUbmConfig kwargs =
     (if has_key kwargs ''self'' then Inl TypeError
      else Inr
        [''num_iters'' \<mapsto> PyInt 4,
         ''num_gselect'' \<mapsto> PyInt 30,
         ''num_frames'' \<mapsto> PyInt 400000,
         ''num_gauss'' \<mapsto> PyInt 256,
         ''num_iters_init'' \<mapsto> PyInt 20,
         ''initial_gauss_proportion'' \<mapsto> PyFloat (fl (5 / 10)),
         ''subsample'' \<mapsto> PyInt 2,
         ''cleanup'' \<mapsto> PyBool True,
         ''min_gaussian_weight'' \<mapsto> PyFloat (fl (1 / 10000)),
         ''remove_low_count_gaussians'' \<mapsto> PyBool True,
         ''num_threads'' \<mapsto> PyInt 32,
         ''splice_opts'' \<mapsto> splice_opts_default])"

definition iVectorExtractorConfig_properties :: "string list" where
  "iVectorExtractorConfig_properties = []"

definition iVectorExtractorConfig :: "pydict \<Rightarrow> error + attrs" where
  "iVectorExtractorConfig kwargs =
     (if has_key kwargs ''self'' then Inl TypeError
      else Inr
        [''ivector_dim'' \<mapsto> PyInt 100,
         ''ivector_period'' \<mapsto> PyInt 10,
         ''num_iters'' \<mapsto> PyInt 10,
         ''num_gselect'' \<mapsto> PyInt 5,
         ''posterior_scale'' \<mapsto> PyFloat (fl (1 / 10)),
         ''min_post'' \<mapsto> PyFloat (fl (25 / 1000)),
         ''subsample'' \<mapsto> PyInt 2,
         ''max_count'' \<mapsto> PyInt 0,
         ''num_threads'' \<mapsto> PyInt 4,
         ''num_processes'' \<mapsto> PyInt 4,
         ''splice_opts'' \<mapsto> splice_opts_default,
         ''compress'' \<mapsto> PyBool False])"

definition NnetBasicConfig_properties :: "string list" where
  "NnetBasicConfig_properties = []"

definition NnetBasicConfig :: "pydict \<Rightarrow> error + attrs" where
  "NnetBasicConfig kwargs =
     (if has_key kwargs ''self'' then Inl TypeError
      else Inr
        [''num_epochs'' \<mapsto> PyInt 4,
         ''num_epochs_extra'' \<mapsto> PyInt 5,
         ''num_iters_final'' \<mapsto> PyInt 20,
         ''iters_per_epoch'' \<mapsto> PyInt 2,
         ''realign_times'' \<mapsto> PyInt 0,
         ''beam'' \<mapsto> PyInt 10,
         ''retry_beam'' \<mapsto> PyInt 15000000,
         ''initial_learning_rate'' \<mapsto> PyFloat (fl (32 / 100)),
         ''final_learning_rate'' \<mapsto> PyFloat (fl (32 / 1000)),
         ''bias_stddev'' \<mapsto> PyFloat (fl (5 / 10)),
         ''pnorm_input_dim'' \<mapsto> PyInt 3000,
         ''pnorm_output_dim'' \<mapsto> PyInt 300,
         ''p'' \<mapsto> PyInt 2,
         ''shrink_interval'' \<mapsto> PyInt 5,
         ''shrink'' \<mapsto> PyBool True,
         ''num_frames_shrink'' \<mapsto> PyInt 2000,
         ''final_learning_rate_factor'' \<mapsto> PyFloat (fl (5 / 10)),
         ''hidden_layer_dim'' \<mapsto> PyInt 50,
         ''samples_per_iter'' \<mapsto> PyInt 200000,
         ''shuffle_buffer_size'' \<mapsto> PyInt 5000,
         ''add_layers_period'' \<mapsto> PyInt 2,
         ''num_hidden_layers'' \<mapsto> PyInt 3,
         ''modify_learning_rates'' \<mapsto> PyBool False,
         ''last_layer_factor'' \<mapsto> PyFloat (fl (1 / 10)),
         ''first_layer_factor'' \<mapsto> PyFloat (fl 1),
         ''splice_width'' \<mapsto> PyInt 3,
         ''randprune'' \<mapsto> PyFloat (fl 4),
         ''alpha'' \<mapsto> PyFloat (fl 4),
         ''max_change'' \<mapsto> PyFloat (fl 10),
         ''mix_up'' \<mapsto> PyInt 12000,
         ''prior_subset_size'' \<mapsto> PyInt 10000,
         ''boost_silence'' \<mapsto> PyFloat (fl (5 / 10)),
         ''update_period'' \<mapsto> PyInt 4,
         ''num_samples_history'' \<mapsto> PyInt 2000,
         ''max_change_per_sample'' \<mapsto> PyFloat (fl (75 / 1000)),
         ''precondition_rank_in'' \<mapsto> PyInt 20,
         ''precondition_rank_out'' \<mapsto> PyInt 80])"

section \<open>The realignment schedule\<close>

lemma MonophoneConfig_no_kwargs_schedule:
  "ebind (MonophoneConfig []) (\<lambda>a. getattr a ''realign_iters'')
     = Inr (PyList (map PyInt align_often_schedule))"
  by (simp add: MonophoneConfig_def has_key_def dict_get_def ebind_def getattr_def
      align_often_schedule_def)

text \<open>
  C1. The class documentation promises the schedule \<open>[1, 5, 10, ..., 38]\<close> for
  \<^verbatim>\<open>align_often=True\<close> and the 21-element schedule otherwise. The constructor has
  the two branches the other way round: with \<^verbatim>\<open>align_often=True\<close> it stores the
  21-element schedule, and with the option unset or false the 9-element one.
\<close>

theorem MonophoneConfig_schedule_swapped:
  "ebind (MonophoneConfig [(''align_often'', PyBool True)]) (\<lambda>a. getattr a ''realign_iters'')
     = Inr (PyList (map PyInt default_schedule))
   \<and> ebind (MonophoneConfig [(''align_often'', PyBool False)]) (\<lambda>a. getattr a ''realign_iters'')
     = Inr (PyList (map PyInt align_often_schedule))
   \<and> ebind (MonophoneConfig []) (\<lambda>a. getattr a ''realign_iters'')
     = Inr (PyList (map PyInt align_often_schedule))"
  by (simp add: MonophoneConfig_def MonophoneConfig_properties_def has_key_def dict_get_def
      ebind_def getattr_def setattr_def align_often_schedule_def default_schedule_def)

lemmas ctor_defs = MonophoneConfig_def TriphoneConfig_def TriphoneFmllrConfig_def
  MonophoneConfig_properties_def has_key_def dict_get_def dict_remove_def
  ebind_def getattr_def setattr_def

text \<open>
  C2. \<^verbatim>\<open>TriphoneFmllrConfig\<close> declares \<^verbatim>\<open>align_often=True\<close> as a parameter of its
  own and forwards only \<^verbatim>\<open>**kwargs\<close>, so the base constructor never sees the option:
  whatever value is passed, the object built is the same, and its schedule is the
  9-element one that the base constructor stores when the option is unset. The class
  documentation promises the 21-element schedule for \<^verbatim>\<open>align_often=False\<close>.
\<close>

theorem TriphoneFmllrConfig_drops_align_often:
  "TriphoneFmllrConfig ((''align_often'', v) # kw) = TriphoneFmllrConfig ((''align_often'', w) # kw)
   \<and> ebind (TriphoneFmllrConfig [(''align_often'', PyBool False)]) (\<lambda>a. getattr a ''realign_iters'')
     = Inr (PyList (map PyInt align_often_schedule))
   \<and> ebind (TriphoneFmllrConfig [(''align_often'', PyBool True)]) (\<lambda>a. getattr a ''realign_iters'')
     = Inr (PyList (map PyInt align_often_schedule))"
proof (intro conjI)
  show "TriphoneFmllrConfig ((''align_often'', v) # kw) = TriphoneFmllrConfig ((''align_often'', w) # kw)"
    by (simp add: TriphoneFmllrConfig_def has_key_def dict_remove_def)
  show "ebind (TriphoneFmllrConfig [(''align_often'', PyBool False)]) (\<lambda>a. getattr a ''realign_iters'')
     = Inr (PyList (map PyInt align_often_schedule))"
    by (simp add: ctor_defs align_often_schedule_def)
  show "ebind (TriphoneFmllrConfig [(''align_often'', PyBool True)]) (\<lambda>a. getattr a ''realign_iters'')
     = Inr (PyList (map PyInt align_often_schedule))"
    by (simp add: ctor_defs align_often_schedule_def)
qed

text \<open>
  C7. \<^verbatim>\<open>TriphoneFmllrConfig()\<close> with no arguments succeeds, and the object has
  \<^verbatim>\<open>do_fmllr = True\<close>, \<^verbatim>\<open>do_lda_mllt = False\<close>, \<^verbatim>\<open>fmllr_update_type = 'full'\<close>,
  \<^verbatim>\<open>fmllr_iters = [2, 4, 6, 12]\<close> and \<^verbatim>\<open>realign_iters = [1, 5, 10, 15, 20, 25, 30, 35, 38]\<close>.
\<close>

theorem TriphoneFmllrConfig_no_arguments:
  "\<exists>a. TriphoneFmllrConfig [] = Inr a
     \<and> a ''do_fmllr'' = Some (PyBool True)
     \<and> a ''do_lda_mllt'' = Some (PyBool False)
     \<and> a ''fmllr_update_type'' = Some (PyStr ''full'')
     \<and> a ''fmllr_iters'' = Some (PyList (map PyInt [2, 4, 6, 12]))
     \<and> a ''realign_iters'' = Some (PyList (map PyInt [1, 5, 10, 15, 20, 25, 30, 35, 38]))"
  by (simp add: ctor_defs)

section \<open>The derived properties\<close>

lemma setattr_all_lookup:
  "setattr_all props kw a0 = Inr a \<Longrightarrow>
     a k = (case map_of (rev kw) k of Some v \<Rightarrow> Some v | None \<Rightarrow> a0 k)"
proof (induction kw arbitrary: a0)
  case Nil
  then show ?case by simp
next
  case (Cons p kw)
  obtain k' v' where p: "p = (k', v')" by (cases p)
  from Cons.prems p obtain a1 where
    s: "setattr props a0 k' v' = Inr a1" and r: "setattr_all props kw a1 = Inr a"
    by (auto split: sum.splits)
  from s have a1: "a1 = a0(k' \<mapsto> v')"
    by (auto simp: setattr_def split: if_splits)
  from Cons.IH [OF r] have "a k = (case map_of (rev kw) k of Some v \<Rightarrow> Some v | None \<Rightarrow> a1 k)" .
  then show ?case
    by (simp add: p a1 map_add_def split: option.splits)
qed

lemma map_of_rev_None: "map_of (rev kw) k = None \<longleftrightarrow> map_of kw k = None"
  by (simp add: map_of_eq_None_iff)

subsection \<open>Rounding the quotient of two integers\<close>

text \<open>
  The float nearest to \<open>a / b\<close>, for integers \<open>0 < a < 2^53\<close> and \<open>0 < b\<close>, lies in the
  same unit interval as the quotient: it is finite, and its integer part is \<open>a div b\<close>.
\<close>

lemma pow2_powi: "pow2 e = 2 powi e"
  by (simp add: pow2_def power_int_def power_one_over inverse_eq_divide)

lemma pow2_pos: "0 < pow2 e"
  by (simp add: pow2_powi)

lemma pow2_add: "pow2 (i + j) = pow2 i * pow2 j"
  by (simp add: pow2_powi power_int_add)

lemma pow2_diff: "pow2 (i - j) = pow2 i / pow2 j"
  by (simp add: pow2_powi power_int_diff)

lemma pow2_mono: "i \<le> j \<Longrightarrow> pow2 i \<le> pow2 j"
  by (simp add: pow2_powi power_int_increasing)

lemma pow2_strict_mono: "i < j \<Longrightarrow> pow2 i < pow2 j"
  by (simp add: pow2_powi power_int_strict_increasing)

lemma pow2_nat: "0 \<le> e \<Longrightarrow> pow2 e = 2 ^ nat e"
  by (simp add: pow2_def)

lemma round_half_even_ge: 
  assumes "of_int k \<le> y" shows "k \<le> round_half_even y"
proof -
  from assms have "k \<le> \<lfloor>y\<rfloor>" by (simp add: le_floor_iff)
  then show ?thesis by (simp add: round_half_even_def Let_def)
qed

lemma round_half_even_less:
  assumes "y < of_int N - 1 / 2" shows "round_half_even y < N"
proof -
  define f where "f = \<lfloor>y\<rfloor>"
  have fy: "of_int f \<le> y" "y < of_int f + 1"
    using floor_correct [of y] by (simp_all add: f_def)
  from assms have "y < of_int N" by simp
  then have fN: "f < N" using fy(1) by (simp add: f_def floor_less_iff)
  show ?thesis
  proof (cases "y - of_int f < 1 / 2")
    case True
    then show ?thesis using fN by (simp add: round_half_even_def Let_def f_def)
  next
    case False
    then have "of_int f + 1 / 2 \<le> y" by simp
    with assms have "(of_int f :: rat) + 1 < of_int N" by simp
    then have "f + 1 < N" by linarith
    then show ?thesis by (simp add: round_half_even_def Let_def f_def)
  qed
qed


lemma ilog2_bounds:
  assumes "0 < x"
  shows "pow2 (ilog2 x) \<le> x \<and> x < pow2 (ilog2 x + 1)"
proof -
  obtain p q where pq: "quotient_of x = (p, q)" by (cases "quotient_of x")
  then have q: "0 < q" by (rule quotient_of_denom_pos)
  from pq have x: "x = of_int p / of_int q" by (rule quotient_of_div)
  with assms q have p: "0 < p" by (simp add: zero_less_divide_iff)
  define lp lq where "lp = bitlen p" and "lq = bitlen q"
  have lp1: "1 \<le> lp" using p bitlen_eq_zero_iff [of p] bitlen_nonneg [of p] by (simp add: lp_def)
  have lq1: "1 \<le> lq" using q bitlen_eq_zero_iff [of q] bitlen_nonneg [of q] by (simp add: lq_def)
  from bitlen_bounds [OF p] have bp: "2 ^ nat (lp - 1) \<le> p" "p < 2 ^ nat lp"
    by (simp_all add: lp_def)
  from bitlen_bounds [OF q] have bq: "2 ^ nat (lq - 1) \<le> q" "q < 2 ^ nat lq"
    by (simp_all add: lq_def)
  have rp1: "pow2 (lp - 1) \<le> of_int p"
  proof -
    have "(of_int (2 ^ nat (lp - 1)) :: rat) \<le> of_int p" using bp(1) by (simp only: of_int_le_iff)
    then show ?thesis using lp1 by (simp add: pow2_nat)
  qed
  have rp2: "(of_int p :: rat) < pow2 lp"
  proof -
    have "(of_int p :: rat) < of_int (2 ^ nat lp)" using bp(2) by (simp only: of_int_less_iff)
    then show ?thesis using lp1 by (simp add: pow2_nat)
  qed
  have rq1: "pow2 (lq - 1) \<le> of_int q"
  proof -
    have "(of_int (2 ^ nat (lq - 1)) :: rat) \<le> of_int q" using bq(1) by (simp only: of_int_le_iff)
    then show ?thesis using lq1 by (simp add: pow2_nat)
  qed
  have rq2: "(of_int q :: rat) < pow2 lq"
  proof -
    have "(of_int q :: rat) < of_int (2 ^ nat lq)" using bq(2) by (simp only: of_int_less_iff)
    then show ?thesis using lq1 by (simp add: pow2_nat)
  qed
  have qpos: "(0::rat) < of_int q" using q by simp
  have up: "x < pow2 (lp - lq + 1)"
  proof -
    have "x < pow2 lp / of_int q" unfolding x using rp2 qpos by (simp add: divide_strict_right_mono)
    also have "\<dots> \<le> pow2 lp / pow2 (lq - 1)"
      using rq1 pow2_pos [of "lq - 1"] pow2_pos [of lp] by (intro divide_left_mono) simp_all
    also have "\<dots> = pow2 (lp - (lq - 1))" by (simp only: pow2_diff)
    also have "lp - (lq - 1) = lp - lq + 1" by simp
    finally show ?thesis .
  qed
  have lo: "pow2 (lp - lq - 1) < x"
  proof -
    have "lp - lq - 1 = (lp - 1) - lq" by simp
    then have "pow2 (lp - lq - 1) = pow2 (lp - 1) / pow2 lq" by (simp only: pow2_diff)
    also have "\<dots> < pow2 (lp - 1) / of_int q"
      using rq2 qpos pow2_pos [of "lp - 1"] by (intro divide_strict_left_mono) simp_all
    also have "\<dots> \<le> x" unfolding x using rp1 qpos by (simp add: divide_right_mono)
    finally show ?thesis .
  qed
  show ?thesis
  proof (cases "pow2 (lp - lq) \<le> x")
    case True
    then have "ilog2 x = lp - lq" by (simp add: ilog2_def pq lp_def lq_def)
    with True up show ?thesis by simp
  next
    case False
    then have "ilog2 x = lp - lq - 1" by (simp add: ilog2_def pq lp_def lq_def)
    with False lo show ?thesis by simp
  qed
qed


lemma fl_quotient_floor:
  assumes a: "0 < a" "a < 2 ^ 53" and b: "0 < b"
  shows "\<exists>y. fl (of_int a / of_int b) = Fin y \<and> 0 \<le> y \<and> \<lfloor>y\<rfloor> = a div b"
proof -
  define x :: rat where "x = of_int a / of_int b"
  define n where "n = a div b"
  have bpos: "(0::rat) < of_int b" using b by simp
  have xpos: "0 < x" using a b by (simp add: x_def)
  have n0: "0 \<le> n" using a b by (simp add: n_def pos_imp_zdiv_nonneg_iff)
  have nfl: "\<lfloor>x\<rfloor> = n" by (simp add: x_def n_def floor_divide_of_int_eq)
  have nle: "of_int n \<le> x" using nfl of_int_floor_le [of x] by simp
  have xb: "x * of_int b = of_int a" using bpos by (simp add: x_def)
  have xup: "x \<le> of_int n + 1 - 1 / of_int b"
  proof -
    have "a mod b \<le> b - 1" using b pos_mod_bound [of b a] by simp
    moreover have "a = n * b + a mod b" by (simp add: n_def)
    ultimately have "a \<le> n * b + b - 1" by linarith
    then have "(of_int a :: rat) \<le> of_int (n * b + b - 1)" by (simp only: of_int_le_iff)
    then have "x * of_int b \<le> (of_int n + 1 - 1 / of_int b) * of_int b"
      using bpos by (simp add: xb algebra_simps)
    then show ?thesis using bpos by (simp only: mult_le_cancel_right_pos)
  qed
  have xlt: "x < pow2 53"
  proof -
    have "(1::rat) \<le> of_int b" using b by simp
    then have "x \<le> of_int a" using a by (simp add: x_def divide_le_eq mult_le_cancel_left1 less_imp_le)
    also have "(of_int a :: rat) < of_int (2 ^ 53)" using a by (simp only: of_int_less_iff)
    finally show ?thesis by (simp add: pow2_def)
  qed
  define e0 where "e0 = ilog2 x"
  from ilog2_bounds [OF xpos] have ib: "pow2 e0 \<le> x" "x < pow2 (e0 + 1)"
    by (simp_all add: e0_def)
  have e052: "e0 \<le> 52"
  proof (rule ccontr)
    assume "\<not> e0 \<le> 52"
    then have "53 \<le> e0" by simp
    then have "pow2 53 \<le> pow2 e0" by (rule pow2_mono)
    with ib(1) xlt show False by simp
  qed
  define e where "e = max e0 (- 1022)"
  have e52: "e \<le> 52" using e052 by (simp add: e_def)
  define k where "k = nat (52 - e)"
  define u where "u = pow2 (e - 52)"
  have upos: "0 < u" by (simp add: u_def pow2_pos)
  have uk: "u * 2 ^ k = 1"
  proof -
    have "pow2 (52 - e) = 2 ^ k" using e52 by (simp add: k_def pow2_nat)
    moreover have "pow2 (e - 52) * pow2 (52 - e) = pow2 0" by (simp add: pow2_add [symmetric])
    ultimately show ?thesis by (simp add: u_def pow2_def)
  qed
  have xu: "x / u = x * 2 ^ k"
    using uk upos by (simp add: field_simps)
  have ule1: "u \<le> 1"
  proof -
    have "pow2 (e - 52) \<le> pow2 0" using e52 by (intro pow2_mono) simp
    then show ?thesis by (simp add: u_def pow2_def)
  qed
  have xhalf: "x < of_int n + 1 - u / 2"
  proof (cases "- 1022 \<le> e0")
    case True
    then have ee: "e = e0" by (simp add: e_def)
    have "of_int b * pow2 e0 \<le> of_int b * x" using ib(1) bpos by simp
    also have "\<dots> = of_int a" using xb by (simp add: mult.commute)
    also have "(of_int a :: rat) < of_int (2 ^ 53)" using a by (simp only: of_int_less_iff)
    finally have "of_int b * pow2 e0 < pow2 53" by (simp add: pow2_def)
    moreover have "pow2 e0 = u * pow2 52" by (simp add: u_def ee pow2_add [symmetric])
    ultimately have "of_int b * u * pow2 52 < 2 * pow2 52" by (simp add: pow2_def mult.assoc)
    then have "of_int b * u < 2" using pow2_pos [of 52] by (simp only: mult_less_cancel_right_pos)
    then have "u / 2 < 1 / of_int b" using bpos by (simp add: field_simps)
    with xup show ?thesis by simp
  next
    case False
    then have "e0 + 1 \<le> - 1" by simp
    then have "pow2 (e0 + 1) \<le> pow2 (- 1)" by (rule pow2_mono)
    with ib(2) have xh: "x < 1 / 2" by (simp add: pow2_def)
    with n0 ule1 show ?thesis by simp
  qed
  define r where "r = round_half_even (x / u)"
  have rlo: "n * 2 ^ k \<le> r"
  proof -
    have "of_int (n * 2 ^ k) \<le> x / u" using nle by (simp add: xu)
    then show ?thesis unfolding r_def by (rule round_half_even_ge)
  qed
  have rhi: "r < (n + 1) * 2 ^ k"
  proof -
    have "x * 2 ^ k < (of_int n + 1 - u / 2) * 2 ^ k" using xhalf by simp
    also have "\<dots> = of_int ((n + 1) * 2 ^ k) - (u * 2 ^ k) / 2" by (simp add: algebra_simps)
    finally have "x / u < of_int ((n + 1) * 2 ^ k) - 1 / 2" by (simp add: xu uk)
    then show ?thesis unfolding r_def by (rule round_half_even_less)
  qed
  define y where "y = of_int r * u"
  have yk: "y * 2 ^ k = of_int r" by (simp add: y_def mult.assoc uk)
  have ylo: "of_int n \<le> y"
  proof -
    have "(of_int (n * 2 ^ k) :: rat) \<le> of_int r" using rlo by (simp only: of_int_le_iff)
    then have "of_int n * 2 ^ k \<le> y * (2 ^ k :: rat)" by (simp add: yk)
    then show ?thesis by simp
  qed
  have yhi: "y < of_int n + 1"
  proof -
    have "(of_int r :: rat) < of_int ((n + 1) * 2 ^ k)" using rhi by (simp only: of_int_less_iff)
    then have "y * 2 ^ k < (of_int n + 1) * (2 ^ k :: rat)" by (simp add: yk)
    then show ?thesis by simp
  qed
  have yfl: "\<lfloor>y\<rfloor> = n" using ylo yhi by (simp add: floor_unique)
  have y0: "0 \<le> y" using ylo n0 by (simp add: order_trans [of 0 "of_int n" y])
  have ynover: "\<not> pow2 1024 \<le> y"
  proof -
    have "of_int n < pow2 53" using nle xlt by simp
    then have "of_int n + 1 \<le> (2 ^ 53 :: rat)"
    proof -
      assume "of_int n < pow2 53"
      then have "(of_int n :: rat) < of_int (2 ^ 53)" by (simp add: pow2_def)
      then have "n < 2 ^ 53" by (simp only: of_int_less_iff)
      then have "n + 1 \<le> 2 ^ 53" by simp
      then have "(of_int (n + 1) :: rat) \<le> of_int (2 ^ 53)" by (simp only: of_int_le_iff)
      then show ?thesis by simp
    qed
    with yhi have "y < 2 ^ 53" by simp
    moreover have "pow2 53 \<le> pow2 1024" by (intro pow2_mono) simp
    ultimately show ?thesis by (simp add: pow2_def)
  qed
  have flx: "fl x = (if y = 0 then Fin 0 else Fin y)"
    using xpos ynover
    by (simp add: fl_def Let_def e0_def [symmetric] e_def [symmetric] u_def [symmetric]
        r_def [symmetric] y_def [symmetric])
  show ?thesis
    unfolding x_def [symmetric] n_def [symmetric]
    using flx yfl y0 by (cases "y = 0") auto
qed

lemma truediv_then_int:
  assumes "0 \<le> d" and "d < 2 ^ 53" and "0 < m"
  shows "ebind (py_truediv (PyInt d) (PyInt m)) (\<lambda>q. ebind (float_to_int q) (\<lambda>n. Inr (PyInt n)))
           = Inr (PyInt (d div m))"
proof (cases "d = 0")
  case True
  with assms show ?thesis by (simp add: py_truediv_def ebind_def)
next
  case False
  with assms have "0 < d" by simp
  from fl_quotient_floor [OF this assms(2) assms(3)]
  obtain y where y: "fl (of_int d / of_int m) = Fin y" "0 \<le> y" "\<lfloor>y\<rfloor> = d div m"
    by blast
  with False assms(3) show ?thesis by (simp add: py_truediv_def ebind_def)
qed

text \<open>
  C6. Whatever \<^verbatim>\<open>num_iters\<close> holds, \<^verbatim>\<open>max_iter_inc\<close> of the monophone family is
  \<^verbatim>\<open>num_iters - 10\<close> (for an integer \<open>n\<close>, the integer \<open>n - 10\<close>), and
  \<^verbatim>\<open>max_iter_inc\<close> of \<^verbatim>\<open>LdaMlltConfig\<close> is \<^verbatim>\<open>num_iters\<close> itself.
\<close>

theorem max_iter_inc_values:
  assumes "self ''num_iters'' = Some v"
  shows "MonophoneConfig_max_iter_inc self = py_sub v (PyInt 10)
       \<and> (\<forall>n. v = PyInt n \<longrightarrow> MonophoneConfig_max_iter_inc self = Inr (PyInt (n - 10)))
       \<and> LdaMlltConfig_max_iter_inc self = Inr v"
  using assms
  by (simp add: MonophoneConfig_max_iter_inc_def LdaMlltConfig_max_iter_inc_def getattr_def
      ebind_def py_sub_def)

theorem max_iter_inc_values_witness:
  "MonophoneConfig_max_iter_inc [''num_iters'' \<mapsto> PyInt 40] = Inr (PyInt 30)
   \<and> LdaMlltConfig_max_iter_inc [''num_iters'' \<mapsto> PyInt 40] = Inr (PyInt 40)"
  using max_iter_inc_values [of "[''num_iters'' \<mapsto> PyInt 40]" "PyInt 40"]
  by (simp add: py_sub_def)

lemma inc_gauss_count_zero_division:
  assumes "self ''max_gauss_count'' = Some (PyInt mx)"
    and "self ''initial_gauss_count'' = Some (PyInt ini)"
    and "self ''num_iters'' = Some (PyInt 10)"
  shows "MonophoneConfig_inc_gauss_count self = Inl ZeroDivisionError"
  using assms
  by (simp add: MonophoneConfig_inc_gauss_count_def MonophoneConfig_max_iter_inc_def
      getattr_def ebind_def py_sub_def py_truediv_def)

lemma inc_gauss_count_missing_field:
  assumes c: "MonophoneConfig kwargs = Inr self"
    and n: "\<not> has_key kwargs ''initial_gauss_count''"
  shows "MonophoneConfig_inc_gauss_count self = Inl AttributeError"
proof -
  from c obtain a0 where
    s: "setattr_all MonophoneConfig_properties kwargs a0 = Inr self"
    and a0i: "a0 ''initial_gauss_count'' = None"
    and a0m: "a0 ''max_gauss_count'' \<noteq> None"
    by (auto simp: MonophoneConfig_def split: if_splits)
  from n have m: "map_of (rev kwargs) ''initial_gauss_count'' = None"
    by (simp add: has_key_def map_of_rev_None)
  have 1: "self ''initial_gauss_count'' = None"
    using setattr_all_lookup [OF s, of "''initial_gauss_count''"] m a0i by simp
  have 2: "self ''max_gauss_count'' \<noteq> None"
    using setattr_all_lookup [OF s, of "''max_gauss_count''"] a0m
    by (auto split: option.splits)
  from 1 2 show ?thesis
    by (auto simp: MonophoneConfig_inc_gauss_count_def getattr_def ebind_def)
qed

text \<open>
  C5. Reading \<^verbatim>\<open>inc_gauss_count\<close> on a monophone configuration returns the error
  to the caller in two cases: a ZeroDivisionError when \<^verbatim>\<open>num_iters\<close> is 10 (so that
  \<^verbatim>\<open>max_iter_inc\<close> is zero) and the two Gaussian counts are integers; an AttributeError
  when the object was built by \<^verbatim>\<open>MonophoneConfig\<close> from keywords that do not set
  \<^verbatim>\<open>initial_gauss_count\<close>, for which the constructor has no default.
\<close>

theorem inc_gauss_count_faults:
  "(self ''max_gauss_count'' = Some (PyInt mx)
      \<and> self ''initial_gauss_count'' = Some (PyInt ini)
      \<and> self ''num_iters'' = Some (PyInt 10)
      \<longrightarrow> MonophoneConfig_max_iter_inc self = Inr (PyInt 0)
          \<and> MonophoneConfig_inc_gauss_count self = Inl ZeroDivisionError)
   \<and> (MonophoneConfig kwargs = Inr bare \<and> \<not> has_key kwargs ''initial_gauss_count''
      \<longrightarrow> MonophoneConfig_inc_gauss_count bare = Inl AttributeError)"
proof (intro conjI impI)
  assume h: "self ''max_gauss_count'' = Some (PyInt mx)
      \<and> self ''initial_gauss_count'' = Some (PyInt ini)
      \<and> self ''num_iters'' = Some (PyInt 10)"
  then show "MonophoneConfig_max_iter_inc self = Inr (PyInt 0)"
    by (simp add: MonophoneConfig_max_iter_inc_def getattr_def ebind_def py_sub_def)
  from h show "MonophoneConfig_inc_gauss_count self = Inl ZeroDivisionError"
    by (simp add: inc_gauss_count_zero_division)
next
  assume "MonophoneConfig kwargs = Inr bare \<and> \<not> has_key kwargs ''initial_gauss_count''"
  then show "MonophoneConfig_inc_gauss_count bare = Inl AttributeError"
    using inc_gauss_count_missing_field [of kwargs bare] by blast
qed

theorem inc_gauss_count_faults_witness:
  "ebind (MonophoneConfig [(''num_iters'', PyInt 10), (''initial_gauss_count'', PyInt 2)])
       MonophoneConfig_inc_gauss_count = Inl ZeroDivisionError
   \<and> ebind (MonophoneConfig []) MonophoneConfig_inc_gauss_count = Inl AttributeError"
proof -
  obtain s where s: "MonophoneConfig [(''num_iters'', PyInt 10), (''initial_gauss_count'', PyInt 2)] = Inr s"
    and s1: "s ''max_gauss_count'' = Some (PyInt 1000)"
    and s2: "s ''initial_gauss_count'' = Some (PyInt 2)"
    and s3: "s ''num_iters'' = Some (PyInt 10)"
    by (simp add: ctor_defs)
  obtain b where b: "MonophoneConfig [] = Inr b"
    by (simp add: ctor_defs)
  have nk: "\<not> has_key [] ''initial_gauss_count''"
    by (simp add: has_key_def)
  from inc_gauss_count_faults [of s 1000 2 "[]" b] s1 s2 s3 b nk
  have "MonophoneConfig_inc_gauss_count s = Inl ZeroDivisionError"
    and "MonophoneConfig_inc_gauss_count b = Inl AttributeError"
    by simp_all
  with s b show ?thesis by (simp add: ebind_def)
qed

section \<open>Constructors that ignore their keywords\<close>

text \<open>
  C10. The constructors of \<^verbatim>\<open>DiagUbmConfig\<close>, \<^verbatim>\<open>iVectorExtractorConfig\<close> and
  \<^verbatim>\<open>NnetBasicConfig\<close> never read \<^verbatim>\<open>kwargs\<close>: whatever keywords are supplied (a keyword
  \<^verbatim>\<open>self\<close> apart, which Python refuses at the call), the object is the one built
  without keywords, so every field holds its fixed default; and the three classes have
  no property.
\<close>

theorem fixed_default_constructors:
  assumes "\<not> has_key kwargs ''self''"
  shows "DiagUbmConfig kwargs = DiagUbmConfig []
       \<and> iVectorExtractorConfig kwargs = iVectorExtractorConfig []
       \<and> NnetBasicConfig kwargs = NnetBasicConfig []
       \<and> (\<exists>a b c. DiagUbmConfig kwargs = Inr a \<and> iVectorExtractorConfig kwargs = Inr b
             \<and> NnetBasicConfig kwargs = Inr c)
       \<and> DiagUbmConfig_properties = []
       \<and> iVectorExtractorConfig_properties = []
       \<and> NnetBasicConfig_properties = []"
  using assms
  by (simp add: DiagUbmConfig_def iVectorExtractorConfig_def NnetBasicConfig_def has_key_def
      DiagUbmConfig_properties_def iVectorExtractorConfig_properties_def
      NnetBasicConfig_properties_def)

theorem fixed_default_constructors_witness:
  "DiagUbmConfig [(''num_iters'', PyInt 99)] = DiagUbmConfig []
   \<and> ebind (DiagUbmConfig [(''num_iters'', PyInt 99)]) (\<lambda>a. getattr a ''num_iters'') = Inr (PyInt 4)
   \<and> ebind (iVectorExtractorConfig [(''num_iters'', PyInt 99)]) (\<lambda>a. getattr a ''num_iters'')
       = Inr (PyInt 10)
   \<and> ebind (NnetBasicConfig [(''beam'', PyInt 99)]) (\<lambda>a. getattr a ''beam'') = Inr (PyInt 10)"
proof -
  have 1: "\<not> has_key [(''num_iters'', PyInt 99)] ''self''"
    and 2: "\<not> has_key [(''beam'', PyInt 99)] ''self''"
    by (simp_all add: has_key_def)
  from fixed_default_constructors [OF 1] fixed_default_constructors [OF 2]
  show ?thesis
    by (simp add: DiagUbmConfig_def iVectorExtractorConfig_def NnetBasicConfig_def has_key_def
        ebind_def getattr_def)
qed

section \<open>The Gaussian-count increment\<close>

text \<open>
  C4. When the three attributes hold integers, the difference
  \<^verbatim>\<open>max_gauss_count - initial_gauss_count\<close> is non-negative and below \<open>2^53\<close>, and
  \<^verbatim>\<open>max_iter_inc\<close> is positive, \<^verbatim>\<open>inc_gauss_count\<close> returns the floor quotient of the
  difference by \<^verbatim>\<open>max_iter_inc\<close>, in \<^verbatim>\<open>MonophoneConfig\<close> (divisor \<^verbatim>\<open>num_iters - 10\<close>)
  and in \<^verbatim>\<open>LdaMlltConfig\<close> (divisor \<^verbatim>\<open>num_iters\<close>). The bound is there because the
  code divides in floating point and truncates the float.
\<close>

theorem inc_gauss_count_floor_division:
  assumes "self ''max_gauss_count'' = Some (PyInt mx)"
    and "self ''initial_gauss_count'' = Some (PyInt ini)"
    and "self ''num_iters'' = Some (PyInt n)"
    and "0 \<le> mx - ini" and "mx - ini < 2 ^ 53"
  shows "(0 < n - 10 \<longrightarrow>
            MonophoneConfig_inc_gauss_count self = Inr (PyInt ((mx - ini) div (n - 10))))
       \<and> (0 < n \<longrightarrow>
            LdaMlltConfig_inc_gauss_count self = Inr (PyInt ((mx - ini) div n)))"
proof (intro conjI impI)
  assume "0 < n - 10"
  from truediv_then_int [OF assms(4) assms(5) this] assms(1-3)
  show "MonophoneConfig_inc_gauss_count self = Inr (PyInt ((mx - ini) div (n - 10)))"
    by (simp add: MonophoneConfig_inc_gauss_count_def MonophoneConfig_max_iter_inc_def
        getattr_def py_sub_def ebind_def)
next
  assume "0 < n"
  from truediv_then_int [OF assms(4) assms(5) this] assms(1-3)
  show "LdaMlltConfig_inc_gauss_count self = Inr (PyInt ((mx - ini) div n))"
    by (simp add: LdaMlltConfig_inc_gauss_count_def LdaMlltConfig_max_iter_inc_def
        getattr_def py_sub_def ebind_def)
qed

end
